theory Spec2Isabelle
  imports Main
begin

section \<open>Python values, exceptions and the environment\<close>

text \<open>
  The module \<^verbatim>\<open>data_juicer/utils/model_utils.py\<close> resolves model artifacts on disk
  (\<^verbatim>\<open>check_model\<close>), keeps a process-wide table of loaded models
  (\<^verbatim>\<open>MODEL_ZOO\<close>, \<^verbatim>\<open>prepare_model\<close>, \<^verbatim>\<open>get_model\<close>) and moves loaded models to
  a CUDA device (\<^verbatim>\<open>move_to_cuda\<close>). Every function below is the source function of
  the same name with its effects made explicit: the file system, the network, the
  Python heap and the log are fields of an environment that is passed in and returned.
\<close>

text \<open>The exceptions that the modelled code can raise or let through.\<close>

datatype py_exn =
    DownloadError
  | TypeError
  | UnboundLocalError string
  | SystemExit int
  | AssertionError string
  | AttributeError string
  | IsADirectoryError string
  | FileNotFoundError string
  | KeyError nat
  | LoaderError string

datatype 'a outcome = Return 'a | Raise py_exn

text \<open>
  Observable effects, in the order in which they happen. \<open>Download url out\<close> is one call
  \<^verbatim>\<open>wget.download(url, out, bar=None)\<close>, whether it succeeds or not; \<open>CallTo r d\<close> is the
  call \<^verbatim>\<open>module.to(d)\<close> on the heap object \<open>r\<close>; \<open>LogNotFound i\<close> is the debug line of
  \<^verbatim>\<open>get_model\<close> for the key object with identity \<open>i\<close>.
\<close>

datatype event =
    Makedirs string
  | Remove string
  | Download string string
  | LogInfo string
  | LogError string
  | LogDebug string
  | LogNotFound nat
  | CallTo nat string

text \<open>
  A Python object as far as \<^verbatim>\<open>move_to_cuda\<close> looks at it: a tuple of references, or an
  instance with its class name, its attribute \<^verbatim>\<open>to\<close> (absent, present but not callable,
  or a method) and its attribute \<^verbatim>\<open>device\<close> (absent, or its printed value).
\<close>

datatype attr = Absent | NonCallable | Callable

record py_instance =
  class_name :: string
  to_attr :: attr
  device_attr :: "string option"

datatype pyobj = PyTuple "nat list" | PyInstance py_instance

text \<open>
  The environment. \<open>files\<close> and \<open>dirs\<close> are the regular files and the directories that
  exist, each under the path string the program uses for it (paths are compared as
  strings: no normalisation, no links). \<open>reachable\<close> is the set of URLs from which
  \<^verbatim>\<open>wget.download\<close> succeeds. \<open>heap\<close> maps a reference to its object, \<open>cuda\<close> is what
  \<^verbatim>\<open>use_cuda()\<close> of the package returns, \<open>trace\<close> is the list of effects so far.
\<close>

record env =
  files :: "string set"
  dirs :: "string set"
  reachable :: "string set"
  heap :: "nat \<Rightarrow> pyobj"
  cuda :: bool
  trace :: "event list"

definition emit :: "event \<Rightarrow> env \<Rightarrow> env" where
  "emit e w = w\<lparr>trace := trace w @ [e]\<rparr>"

definition logger_info :: "string \<Rightarrow> env \<Rightarrow> env" where
  "logger_info msg w = emit (LogInfo msg) w"

definition logger_error :: "string \<Rightarrow> env \<Rightarrow> env" where
  "logger_error msg w = emit (LogError msg) w"

definition logger_debug :: "string \<Rightarrow> env \<Rightarrow> env" where
  "logger_debug msg w = emit (LogDebug msg) w"

subsection \<open>The operating system and the downloader\<close>

definition os_path_exists :: "env \<Rightarrow> string \<Rightarrow> bool" where
  "os_path_exists w p = (p \<in> files w \<or> p \<in> dirs w)"

text \<open>
  \<^verbatim>\<open>os.path.join(a, b)\<close> of \<^verbatim>\<open>posixpath\<close>: an absolute \<open>b\<close> replaces \<open>a\<close>; otherwise \<open>b\<close>
  is appended, after a separator unless \<open>a\<close> is empty or already ends with one.
\<close>

definition os_path_join :: "string \<Rightarrow> string \<Rightarrow> string" where
  "os_path_join a b =
     (if take 1 b = ''/'' then b
      else if a = [] then b
      else if last a = CHR ''/'' then a @ b
      else a @ ''/'' @ b)"

text \<open>
  \<^verbatim>\<open>os.makedirs(p)\<close> is taken to succeed and is recorded for the directory itself.
  \<^verbatim>\<open>os.remove(p)\<close> deletes a regular file and raises on a directory or a missing path.
\<close>

definition os_makedirs :: "string \<Rightarrow> env \<Rightarrow> env" where
  "os_makedirs p w = emit (Makedirs p) (w\<lparr>dirs := insert p (dirs w)\<rparr>)"

definition os_remove :: "string \<Rightarrow> env \<Rightarrow> unit outcome \<times> env" where
  "os_remove p w =
     (if p \<in> files w then (Return (), emit (Remove p) (w\<lparr>files := files w - {p}\<rparr>))
      else if p \<in> dirs w then (Raise (IsADirectoryError p), w)
      else (Raise (FileNotFoundError p), w))"

text \<open>
  \<^verbatim>\<open>wget.download(url, out, bar=None)\<close>: every call is an attempt in the trace; from a
  reachable URL the file \<open>out\<close> exists afterwards, from any other URL the call raises and
  the file system is as before. \<^verbatim>\<open>check_model\<close> only downloads to a path that it has
  found absent or has just removed.
\<close>

definition wget_download :: "string \<Rightarrow> string \<Rightarrow> env \<Rightarrow> unit outcome \<times> env" where
  "wget_download url out w =
     (let w' = emit (Download url out) w
      in if url \<in> reachable w then (Return (), w'\<lparr>files := insert out (files w')\<rparr>)
         else (Raise DownloadError, w'))"

section \<open>Backup links\<close>

definition MODEL_LINKS :: string where
  "MODEL_LINKS = ''https://dail-wlcb.oss-cn-wulanchabu.aliyuncs.com/'' @ ''data_juicer/models/''"

text \<open>The dictionary literal, as the list of its items in declaration order.\<close>

definition BACKUP_MODEL_LINKS :: "(string \<times> string) list" where
  "BACKUP_MODEL_LINKS =
     [(''lid.176.bin'', ''https://dl.fbaipublicfiles.com/fasttext/supervised-models/''),
      (''*.sp.model'', ''https://huggingface.co/edugp/kenlm/resolve/main/wikipedia/''),
      (''*.arpa.bin'', ''https://huggingface.co/edugp/kenlm/resolve/main/wikipedia/''),
      (''punkt.*.pickle'',
         ''https://dail-wlcb.oss-cn-wulanchabu.aliyuncs.com/'' @ ''data_juicer/models/'')]"

text \<open>
  \<^verbatim>\<open>fnmatch.fnmatch(name, pat)\<close> on a POSIX system (where \<^verbatim>\<open>normcase\<close> changes nothing),
  for patterns made of literal characters, \<^verbatim>\<open>*\<close> (any string, also an empty one) and
  \<^verbatim>\<open>?\<close> (any one character). Bracket expressions are not modelled; no pattern of
  \<open>BACKUP_MODEL_LINKS\<close> has one.
\<close>

fun fnmatch :: "string \<Rightarrow> string \<Rightarrow> bool" where
  "fnmatch [] [] = True"
| "fnmatch (c # cs) [] = False"
| "fnmatch [] (p # ps) = (p = CHR ''*'' \<and> fnmatch [] ps)"
| "fnmatch (c # cs) (p # ps) =
     (if p = CHR ''*'' then fnmatch (c # cs) ps \<or> fnmatch cs (p # ps)
      else if p = CHR ''?'' then fnmatch cs ps
      else p = c \<and> fnmatch cs ps)"

text \<open>The loop of \<^verbatim>\<open>get_backup_model_link\<close> over the items of a dictionary.\<close>

fun get_backup_model_link_items :: "(string \<times> string) list \<Rightarrow> string \<Rightarrow> string option" where
  "get_backup_model_link_items [] model_name = None"
| "get_backup_model_link_items ((pattern, url) # items) model_name =
     (if fnmatch model_name pattern then Some url
      else get_backup_model_link_items items model_name)"

definition get_backup_model_link :: "string \<Rightarrow> string option" where
  "get_backup_model_link model_name = get_backup_model_link_items BACKUP_MODEL_LINKS model_name"

section \<open>Resolving an artifact: \<^verbatim>\<open>check_model\<close>\<close>

text \<open>
  The two log lines of the forced branch and the error line. \<open>DJMC\<close> is the constant
  \<^verbatim>\<open>DATA_JUICER_MODELS_CACHE\<close> of \<^verbatim>\<open>cache_utils\<close>, a parameter here.
\<close>

definition msg_invalid :: "string \<Rightarrow> string" where
  "msg_invalid cached_model_path =
     ''Model ['' @ cached_model_path @ ''] invalid, force to downloading...''"

definition msg_not_found :: "string \<Rightarrow> string" where
  "msg_not_found cached_model_path =
     ''Model ['' @ cached_model_path @ ''] not found . Downloading...''"

definition msg_download_error :: "string \<Rightarrow> string \<Rightarrow> string \<Rightarrow> string \<Rightarrow> string" where
  "msg_download_error model_name DJMC model_link backup_model_link =
     ''Downloading model ['' @ model_name @ ''] error. ''
     @ ''Please retry later or download it into '' @ DJMC @ '' ''
     @ ''manually from '' @ model_link @ '' or '' @ backup_model_link @ '' ''"

text \<open>
  The inner \<^verbatim>\<open>try\<close>: the backup link is computed and downloaded. The second component is
  the local variable \<^verbatim>\<open>backup_model_link\<close>, \<open>None\<close> while it is unbound: when
  \<^verbatim>\<open>get_backup_model_link\<close> returns \<^verbatim>\<open>None\<close>, \<^verbatim>\<open>os.path.join(None, model_name)\<close> raises
  \<^verbatim>\<open>TypeError\<close> before the assignment.
\<close>

definition try_backup :: "string \<Rightarrow> string \<Rightarrow> env \<Rightarrow> unit outcome \<times> string option \<times> env" where
  "try_backup model_name cached_model_path w =
     (case get_backup_model_link model_name of
        None \<Rightarrow> (Raise TypeError, None, w)
      | Some url \<Rightarrow>
          (let backup_model_link = os_path_join url model_name
           in case wget_download backup_model_link cached_model_path w of
                (r, w') \<Rightarrow> (r, Some backup_model_link, w')))"

text \<open>
  The outer \<^verbatim>\<open>try\<close> with its handler. The inner handler formats the error line first:
  reading the unbound \<^verbatim>\<open>backup_model_link\<close> raises \<^verbatim>\<open>UnboundLocalError\<close> out of the
  handler, before \<^verbatim>\<open>logger.error\<close> and \<^verbatim>\<open>exit(1)\<close> run.
\<close>

definition download_model :: "string \<Rightarrow> string \<Rightarrow> string \<Rightarrow> env \<Rightarrow> string outcome \<times> env" where
  "download_model DJMC model_name cached_model_path w =
     (let model_link = os_path_join MODEL_LINKS model_name
      in case wget_download model_link cached_model_path w of
           (Return u, w1) \<Rightarrow> (Return cached_model_path, w1)
         | (Raise e1, w1) \<Rightarrow>
             (case try_backup model_name cached_model_path w1 of
                (Return u, b, w2) \<Rightarrow> (Return cached_model_path, w2)
              | (Raise e2, None, w2) \<Rightarrow> (Raise (UnboundLocalError ''backup_model_link''), w2)
              | (Raise e2, Some backup_model_link, w2) \<Rightarrow>
                  (Raise (SystemExit 1),
                   logger_error
                     (msg_download_error model_name DJMC model_link backup_model_link) w2)))"

definition check_model :: "string \<Rightarrow> string \<Rightarrow> bool \<Rightarrow> env \<Rightarrow> string outcome \<times> env" where
  "check_model DJMC model_name force w =
     (if os_path_exists w model_name then (Return model_name, w)
      else
        let w1 = (if \<not> os_path_exists w DJMC then os_makedirs DJMC w else w);
            cached_model_path = os_path_join DJMC model_name
        in if force then
             (if os_path_exists w1 cached_model_path then
                (case os_remove cached_model_path w1 of
                   (Raise e, w2) \<Rightarrow> (Raise e, w2)
                 | (Return u, w2) \<Rightarrow>
                     download_model DJMC model_name cached_model_path
                       (logger_info (msg_invalid cached_model_path) w2))
              else
                download_model DJMC model_name cached_model_path
                  (logger_info (msg_not_found cached_model_path) w1))
           else (Return cached_model_path, w1))"

section \<open>Moving a model to a CUDA device: \<^verbatim>\<open>move_to_cuda\<close>\<close>

text \<open>\<^verbatim>\<open>str(n)\<close> for an integer, as an f-string prints it.\<close>

fun str_nat :: "nat \<Rightarrow> string" where
  "str_nat n =
     (if n < 10 then [''0123456789'' ! n]
      else str_nat (n div 10) @ [''0123456789'' ! (n mod 10)])"

declare str_nat.simps [simp del]

definition str_int :: "int \<Rightarrow> string" where
  "str_int i = (if i < 0 then ''-'' @ str_nat (nat (- i)) else str_nat (nat i))"

text \<open>
  The attribute reads of the loop body. \<^verbatim>\<open>callable(getattr(module, 'to', None))\<close> holds
  for an instance whose \<^verbatim>\<open>to\<close> is a method; a tuple has no such attribute.
  \<^verbatim>\<open>module.device\<close> raises \<^verbatim>\<open>AttributeError\<close> when the attribute is absent (\<open>None\<close> here).
\<close>

definition callable_to :: "env \<Rightarrow> nat \<Rightarrow> bool" where
  "callable_to w module =
     (case heap w module of PyInstance i \<Rightarrow> to_attr i = Callable | PyTuple ms \<Rightarrow> False)"

definition class_name_of :: "env \<Rightarrow> nat \<Rightarrow> string" where
  "class_name_of w module =
     (case heap w module of PyInstance i \<Rightarrow> class_name i | PyTuple ms \<Rightarrow> ''tuple'')"

definition device_of :: "env \<Rightarrow> nat \<Rightarrow> string option" where
  "device_of w module =
     (case heap w module of PyInstance i \<Rightarrow> device_attr i | PyTuple ms \<Rightarrow> None)"

text \<open>
  The call \<^verbatim>\<open>module.to(dev)\<close> of the loaded object: it is recorded, and it changes the
  object in place, so that an object that has a \<^verbatim>\<open>device\<close> attribute reports \<open>dev\<close>
  afterwards. The call is taken to return.
\<close>

definition module_to :: "nat \<Rightarrow> string \<Rightarrow> env \<Rightarrow> env" where
  "module_to module dev w =
     emit (CallTo module dev)
       (w\<lparr>heap := (heap w)(module :=
            (case heap w module of
               PyInstance i \<Rightarrow> PyInstance (i\<lparr>device_attr := map_option (\<lambda>d. dev) (device_attr i)\<rparr>)
             | PyTuple ms \<Rightarrow> PyTuple ms))\<rparr>)"

text \<open>The \<^verbatim>\<open>for\<close> loop over the modules; both log lines are formatted before they are logged.\<close>

fun move_modules :: "nat list \<Rightarrow> int \<Rightarrow> env \<Rightarrow> unit outcome \<times> env" where
  "move_modules [] rank w = (Return (), w)"
| "move_modules (module # modules) rank w =
     (if callable_to w module then
        (let w1 = logger_info
                    (''Moving '' @ class_name_of w module @ '' to CUDA device '' @ str_int rank) w;
             w2 = module_to module (''cuda:'' @ str_int rank) w1
         in case device_of w2 module of
              None \<Rightarrow> (Raise (AttributeError ''device''), w2)
            | Some d \<Rightarrow>
                move_modules modules rank
                  (logger_debug (class_name_of w2 module @ '' is on device '' @ d) w2))
      else move_modules modules rank w)"

text \<open>\<^verbatim>\<open>if not isinstance(model, tuple): model = (model, )\<close>\<close>

definition as_tuple :: "env \<Rightarrow> nat \<Rightarrow> nat list" where
  "as_tuple w model = (case heap w model of PyTuple ms \<Rightarrow> ms | PyInstance i \<Rightarrow> [model])"

definition move_to_cuda :: "nat \<Rightarrow> int \<Rightarrow> env \<Rightarrow> unit outcome \<times> env" where
  "move_to_cuda model rank w = move_modules (as_tuple w model) rank w"

text \<open>The events that are calls of \<^verbatim>\<open>to\<close>.\<close>

fun is_call :: "event \<Rightarrow> bool" where
  "is_call (CallTo r d) = True"
| "is_call e = False"

section \<open>The table of loaded models: \<^verbatim>\<open>MODEL_ZOO\<close>\<close>

text \<open>
  A key of the table is the object \<^verbatim>\<open>partial(model_func, **model_kwargs)\<close>: the function
  (named by its tag in \<^verbatim>\<open>MODEL_FUNCTION_MAPPING\<close>), the keyword arguments, and the identity
  of the object. \<^verbatim>\<open>functools.partial\<close> defines neither \<^verbatim>\<open>__eq__\<close> nor \<^verbatim>\<open>__hash__\<close>, so
  Python compares and hashes such keys by identity.
\<close>

datatype pyarg = PyStr string | PyBool bool | PyInt int

record py_partial =
  ident :: nat
  func :: string
  kwds :: "(string \<times> pyarg) list"

definition py_eq :: "py_partial \<Rightarrow> py_partial \<Rightarrow> bool" where
  "py_eq k1 k2 = (ident k1 = ident k2)"

text \<open>The dictionary operations \<^verbatim>\<open>d[key]\<close>, \<^verbatim>\<open>key in d\<close> and \<^verbatim>\<open>d[key] = v\<close> on the items.\<close>

fun dict_get :: "(py_partial \<times> 'v) list \<Rightarrow> py_partial \<Rightarrow> 'v option" where
  "dict_get [] key = None"
| "dict_get ((k, v) # items) key = (if py_eq k key then Some v else dict_get items key)"

definition dict_contains :: "(py_partial \<times> 'v) list \<Rightarrow> py_partial \<Rightarrow> bool" where
  "dict_contains items key = (dict_get items key \<noteq> None)"

fun dict_set :: "(py_partial \<times> 'v) list \<Rightarrow> py_partial \<Rightarrow> 'v \<Rightarrow> (py_partial \<times> 'v) list" where
  "dict_set [] key v = [(key, v)]"
| "dict_set ((k, v') # items) key v =
     (if py_eq k key then (k, v) # items else (k, v') # dict_set items key v)"

text \<open>
  The loader functions of \<^verbatim>\<open>MODEL_FUNCTION_MAPPING\<close> wrap third-party libraries; they are
  a parameter \<open>L\<close>: \<open>L tag kwargs\<close> runs the loader for \<open>tag\<close> on the environment and
  returns a reference to the loaded object, or raises. A loader sees the environment
  only: it cannot reach the table.
\<close>

type_synonym loaders = "string \<Rightarrow> (string \<times> pyarg) list \<Rightarrow> env \<Rightarrow> nat outcome \<times> env"

definition MODEL_FUNCTION_MAPPING_keys :: "string list" where
  "MODEL_FUNCTION_MAPPING_keys =
     [''fasttext'', ''sentencepiece'', ''kenlm'', ''nltk'', ''huggingface'', ''spacy'',
      ''diffusion'']"

text \<open>
  The state of the process: the environment, the table, the identity that the next
  \<^verbatim>\<open>partial\<close> object gets, and the list of the keys that were called so far (one
  entry for each construction \<^verbatim>\<open>model_key()\<close>).
\<close>

record state =
  environment :: env
  MODEL_ZOO :: "(py_partial \<times> nat) list"
  next_ident :: nat
  constructed :: "py_partial list"

definition call_partial :: "loaders \<Rightarrow> py_partial \<Rightarrow> state \<Rightarrow> nat outcome \<times> state" where
  "call_partial L model_key s =
     (case L (func model_key) (kwds model_key) (environment s) of
        (r, w) \<Rightarrow> (r, s\<lparr>environment := w, constructed := constructed s @ [model_key]\<rparr>))"

definition new_partial :: "string \<Rightarrow> (string \<times> pyarg) list \<Rightarrow> state \<Rightarrow> py_partial \<times> state" where
  "new_partial f kwargs s =
     (\<lparr>ident = next_ident s, func = f, kwds = kwargs\<rparr>,
      s\<lparr>next_ident := Suc (next_ident s)\<rparr>)"

definition py_quote :: "string \<Rightarrow> string" where
  "py_quote x = [CHR 0x27] @ x @ [CHR 0x27]"

fun comma_sep :: "string list \<Rightarrow> string" where
  "comma_sep [] = []"
| "comma_sep [x] = x"
| "comma_sep (x # y # ys) = x @ '', '' @ comma_sep (y # ys)"

definition msg_model_type :: string where
  "msg_model_type =
     ''model_type must be one of the following: [''
     @ comma_sep (map py_quote MODEL_FUNCTION_MAPPING_keys) @ '']''"

definition prepare_model ::
  "loaders \<Rightarrow> string \<Rightarrow> (string \<times> pyarg) list \<Rightarrow> state \<Rightarrow> py_partial outcome \<times> state" where
  "prepare_model L model_type model_kwargs s =
     (if model_type \<notin> set MODEL_FUNCTION_MAPPING_keys
      then (Raise (AssertionError msg_model_type), s)
      else
        case new_partial model_type model_kwargs s of
          (model_key, s1) \<Rightarrow>
            (case call_partial L model_key s1 of
               (Raise e, s2) \<Rightarrow> (Raise e, s2)
             | (Return model_objects, s2) \<Rightarrow>
                 (Return model_key,
                  s2\<lparr>MODEL_ZOO := dict_set (MODEL_ZOO s2) model_key model_objects\<rparr>)))"

text \<open>\<^verbatim>\<open>MODEL_ZOO[model_key]\<close>, which raises \<^verbatim>\<open>KeyError\<close> for a key that is not bound.\<close>

definition zoo_getitem :: "state \<Rightarrow> py_partial \<Rightarrow> nat outcome" where
  "zoo_getitem s model_key =
     (case dict_get (MODEL_ZOO s) model_key of
        None \<Rightarrow> Raise (KeyError (ident model_key))
      | Some model \<Rightarrow> Return model)"

text \<open>The first \<^verbatim>\<open>if\<close> of \<^verbatim>\<open>get_model\<close>: a key that is not in the table is called and bound.\<close>

definition materialize :: "loaders \<Rightarrow> py_partial \<Rightarrow> state \<Rightarrow> unit outcome \<times> state" where
  "materialize L model_key s =
     (if \<not> dict_contains (MODEL_ZOO s) model_key then
        (case call_partial L model_key
                (s\<lparr>environment := emit (LogNotFound (ident model_key)) (environment s)\<rparr>) of
           (Raise e, s1) \<Rightarrow> (Raise e, s1)
         | (Return model_objects, s1) \<Rightarrow>
             (Return (), s1\<lparr>MODEL_ZOO := dict_set (MODEL_ZOO s1) model_key model_objects\<rparr>))
      else (Return (), s))"

text \<open>The second \<^verbatim>\<open>if\<close>: under \<^verbatim>\<open>use_cuda()\<close> the bound model is moved to the device.\<close>

definition place_model :: "py_partial \<Rightarrow> int option \<Rightarrow> state \<Rightarrow> unit outcome \<times> state" where
  "place_model model_key rank s =
     (if cuda (environment s) then
        (let rank' = (case rank of None \<Rightarrow> 0 | Some r \<Rightarrow> r)
         in case zoo_getitem s model_key of
              Raise e \<Rightarrow> (Raise e, s)
            | Return model \<Rightarrow>
                (case move_to_cuda model rank' (environment s) of
                   (r, w) \<Rightarrow> (r, s\<lparr>environment := w\<rparr>)))
      else (Return (), s))"

definition get_model ::
  "loaders \<Rightarrow> py_partial option \<Rightarrow> int option \<Rightarrow> state \<Rightarrow> nat option outcome \<times> state" where
  "get_model L model_key rank s =
     (case model_key of
        None \<Rightarrow> (Return None, s)
      | Some key \<Rightarrow>
          (case materialize L key s of
             (Raise e, s1) \<Rightarrow> (Raise e, s1)
           | (Return u, s1) \<Rightarrow>
               (case place_model key rank s1 of
                  (Raise e, s2) \<Rightarrow> (Raise e, s2)
                | (Return u', s2) \<Rightarrow>
                    (case zoo_getitem s2 key of
                       Raise e \<Rightarrow> (Raise e, s2)
                     | Return model \<Rightarrow> (Return (Some model), s2)))))"

section \<open>Sequences of calls\<close>

text \<open>
  The three operations that act on the table or on a loaded model, as requests, and the
  state after serving a list of them in order. A failed request leaves the state that
  the raising call leaves.
\<close>

datatype request =
    Register string "(string \<times> pyarg) list"
  | Get "py_partial option" "int option"
  | Place nat int

fun serve :: "loaders \<Rightarrow> request \<Rightarrow> state \<Rightarrow> state" where
  "serve L (Register model_type model_kwargs) s = snd (prepare_model L model_type model_kwargs s)"
| "serve L (Get model_key rank) s = snd (get_model L model_key rank s)"
| "serve L (Place model rank) s = s\<lparr>environment := snd (move_to_cuda model rank (environment s))\<rparr>"

fun serve_all :: "loaders \<Rightarrow> request list \<Rightarrow> state \<Rightarrow> state" where
  "serve_all L [] s = s"
| "serve_all L (r # rs) s = serve_all L rs (serve L r s)"

text \<open>
  Object identities are unique: a key object that a caller holds exists, so its identity
  is below the identity that the next \<^verbatim>\<open>partial\<close> object gets. \<open>live_run\<close> says so for
  the key of each \<open>Get\<close> of a run, at the moment it is served; \<open>zoo_wf\<close> says so for the
  keys of the table, and that no two items of the table have the same key.
\<close>

fun request_live :: "request \<Rightarrow> state \<Rightarrow> bool" where
  "request_live (Get (Some key) rank) s = (ident key < next_ident s)"
| "request_live (Get None rank) s = True"
| "request_live (Register model_type model_kwargs) s = True"
| "request_live (Place model rank) s = True"

fun live_run :: "loaders \<Rightarrow> request list \<Rightarrow> state \<Rightarrow> bool" where
  "live_run L [] s = True"
| "live_run L (r # rs) s = (request_live r s \<and> live_run L rs (serve L r s))"

definition zoo_wf :: "state \<Rightarrow> bool" where
  "zoo_wf s =
     (list_all (\<lambda>item. ident (fst item) < next_ident s) (MODEL_ZOO s)
      \<and> distinct (map (\<lambda>item. ident (fst item)) (MODEL_ZOO s)))"

section \<open>Sample environments\<close>

text \<open>
  A machine whose cache directory \<^verbatim>\<open>/cache\<close> exists, with the given regular files and
  the given reachable URLs, no CUDA device, an empty log and a heap of empty tuples.
\<close>

definition sample_env :: "string set \<Rightarrow> string set \<Rightarrow> env" where
  "sample_env fs urls =
     \<lparr>files = fs, dirs = {''/cache''}, reachable = urls, heap = (\<lambda>r. PyTuple []),
      cuda = False, trace = []\<rparr>"

text \<open>
  A heap with a \<^verbatim>\<open>Linear\<close> layer at reference 1, which has a method \<^verbatim>\<open>to\<close> and no
  attribute \<^verbatim>\<open>device\<close>, a \<^verbatim>\<open>BertModel\<close> at 2, which has both, and a tokenizer at 3, which
  has neither. Reference 0 is the pair of the model and the tokenizer, reference 4 the
  pair of the layer and the model.
\<close>

definition sample_heap :: "nat \<Rightarrow> pyobj" where
  "sample_heap =
     (\<lambda>r. PyTuple [])
       (0 := PyTuple [2, 3],
        1 := PyInstance \<lparr>class_name = ''Linear'', to_attr = Callable, device_attr = None\<rparr>,
        2 := PyInstance \<lparr>class_name = ''BertModel'', to_attr = Callable,
                         device_attr = Some ''cpu''\<rparr>,
        3 := PyInstance \<lparr>class_name = ''BertTokenizer'', to_attr = Absent,
                         device_attr = None\<rparr>,
        4 := PyTuple [1, 2])"

definition cuda_env :: env where
  "cuda_env = (sample_env {} {})\<lparr>heap := sample_heap, cuda := True\<rparr>"

text \<open>
  A loader that logs one line and returns the reference numbered by the length of the
  trace it found, and the state of a process that has just started: an empty table, no
  key object yet, nothing constructed.
\<close>

definition stub_loader :: loaders where
  "stub_loader tag kwargs w = (Return (length (trace w)), logger_info (''Loading '' @ tag) w)"

definition start_state :: "env \<Rightarrow> state" where
  "start_state w = \<lparr>environment = w, MODEL_ZOO = [], next_ident = 0, constructed = []\<rparr>"

text \<open>The key object with identity \<open>i\<close> that \<^verbatim>\<open>prepare_model('fasttext')\<close> creates.\<close>

definition fasttext_key :: "nat \<Rightarrow> py_partial" where
  "fasttext_key i = \<lparr>ident = i, func = ''fasttext'', kwds = []\<rparr>"

text \<open>The state of a fresh process after one \<^verbatim>\<open>prepare_model('fasttext')\<close>.\<close>

definition registered_state :: state where
  "registered_state =
     snd (prepare_model stub_loader ''fasttext'' [] (start_state (sample_env {} {})))"

text \<open>
  The same state after a second key object for the same function and keyword arguments
  was created and not registered, as unpickling a copy of the key does.
\<close>

definition copied_key_state :: state where
  "copied_key_state = snd (new_partial ''fasttext'' [] registered_state)"

section \<open>Properties of \<^verbatim>\<open>get_backup_model_link\<close>\<close>

lemma get_backup_model_link_items_find:
  "get_backup_model_link_items items model_name =
     map_option snd (find (\<lambda>item. fnmatch model_name (fst item)) items)"
  by (induction items) auto

lemma get_backup_model_link_items_None:
  "(get_backup_model_link_items items model_name = None) =
     (\<forall>item\<in>set items. \<not> fnmatch model_name (fst item))"
  by (induction items) (auto split: if_splits)

text \<open>
  Claim C4. \<^verbatim>\<open>get_backup_model_link\<close> runs the loop over the items of
  \<open>BACKUP_MODEL_LINKS\<close> in declaration order. For any list of items, the loop returns
  \<open>url\<close> exactly when some item matches the name, carries \<open>url\<close>, and no item before it
  matches (so the first match wins, whatever a later matching item carries); it returns
  \<open>None\<close> exactly when no item matches.
\<close>

theorem get_backup_model_link_first_match:
  "((get_backup_model_link_items items model_name = Some url) =
      (\<exists>i<length items. fnmatch model_name (fst (items ! i)) \<and> snd (items ! i) = url
         \<and> (\<forall>j<i. \<not> fnmatch model_name (fst (items ! j)))))
   \<and> ((get_backup_model_link_items items model_name = None) =
      (\<forall>i<length items. \<not> fnmatch model_name (fst (items ! i))))
   \<and> get_backup_model_link model_name =
       get_backup_model_link_items BACKUP_MODEL_LINKS model_name"
proof (intro conjI)
  show "(get_backup_model_link_items items model_name = Some url) =
     (\<exists>i<length items. fnmatch model_name (fst (items ! i)) \<and> snd (items ! i) = url
        \<and> (\<forall>j<i. \<not> fnmatch model_name (fst (items ! j))))"
    unfolding get_backup_model_link_items_find map_option_eq_Some find_Some_iff
    apply auto
     apply (metis snd_conv)
    apply (metis prod.collapse)
    done
  show "(get_backup_model_link_items items model_name = None) =
     (\<forall>i<length items. \<not> fnmatch model_name (fst (items ! i)))"
    by (simp only: get_backup_model_link_items_None all_set_conv_all_nth)
  show "get_backup_model_link model_name =
          get_backup_model_link_items BACKUP_MODEL_LINKS model_name"
    by (simp add: get_backup_model_link_def)
qed

theorem get_backup_model_link_first_match_witness:
  "get_backup_model_link_items [(''*.bin'', ''first/''), (''lid.*'', ''second/'')]
      ''lid.176.bin'' = Some ''first/''
   \<and> fnmatch ''lid.176.bin'' ''lid.*''"
  using get_backup_model_link_first_match
          [of "[(''*.bin'', ''first/''), (''lid.*'', ''second/'')]" "''lid.176.bin''" "''first/''"]
  by simp

section \<open>Properties of \<^verbatim>\<open>check_model\<close>\<close>

lemma download_model_trace:
  "\<exists>rest. trace (snd (download_model DJMC model_name cached w)) =
      trace w @ [Download (os_path_join MODEL_LINKS model_name) cached] @ rest"
  by (simp add: download_model_def try_backup_def wget_download_def emit_def logger_error_def
        Let_def split: option.splits)

lemma download_model_files:
  "files (snd (download_model DJMC model_name cached w)) =
     (case fst (download_model DJMC model_name cached w) of
        Return p \<Rightarrow> insert cached (files w)
      | Raise e \<Rightarrow> files w)"
  by (simp add: download_model_def try_backup_def wget_download_def emit_def logger_error_def
        Let_def split: option.splits)

text \<open>
  Without \<open>force\<close>, \<^verbatim>\<open>check_model\<close> never downloads: it returns a path and leaves the
  files and the network alone, whether the cached file exists or not.
\<close>

lemma check_model_unforced:
  "check_model DJMC model_name False w =
     (if os_path_exists w model_name then (Return model_name, w)
      else (Return (os_path_join DJMC model_name),
            if os_path_exists w DJMC then w else os_makedirs DJMC w))"
  by (simp add: check_model_def Let_def)

text \<open>
  Claim C1 (the code departs from it). With \<open>force = False\<close> and no file
  \<^verbatim>\<open>/cache/lid.176.bin\<close>, \<^verbatim>\<open>check_model\<close> returns that path without any download, although
  the primary URL is reachable: the environment is unchanged and the returned path does
  not exist.
\<close>

theorem check_model_unforced_missing_file:
  "check_model ''/cache'' ''lid.176.bin'' False
      (sample_env {} {os_path_join MODEL_LINKS ''lid.176.bin''})
     = (Return ''/cache/lid.176.bin'', sample_env {} {os_path_join MODEL_LINKS ''lid.176.bin''})
   \<and> \<not> os_path_exists (sample_env {} {os_path_join MODEL_LINKS ''lid.176.bin''})
         ''/cache/lid.176.bin''"
  by (simp add: check_model_def sample_env_def os_path_exists_def os_path_join_def)

text \<open>
  Claim C2 (the code departs from it). \<^verbatim>\<open>en_core_web_md-3.5.0.zip\<close>, the name that
  \<^verbatim>\<open>prepare_spacy_model\<close> asks for, matches no backup pattern. When its forced primary
  download fails, \<^verbatim>\<open>check_model\<close> raises \<^verbatim>\<open>UnboundLocalError\<close> for
  \<^verbatim>\<open>backup_model_link\<close>: nothing is logged at error level and \<^verbatim>\<open>exit(1)\<close> is not reached.
\<close>

theorem check_model_no_backup_pattern:
  "get_backup_model_link ''en_core_web_md-3.5.0.zip'' = None
   \<and> check_model ''/cache'' ''en_core_web_md-3.5.0.zip'' True (sample_env {} {})
     = (Raise (UnboundLocalError ''backup_model_link''),
        (sample_env {} {})\<lparr>trace :=
           [LogInfo (msg_not_found ''/cache/en_core_web_md-3.5.0.zip''),
            Download (os_path_join MODEL_LINKS ''en_core_web_md-3.5.0.zip'') ''/cache/en_core_web_md-3.5.0.zip'']\<rparr>)"
  by (simp add: check_model_def download_model_def try_backup_def wget_download_def
        get_backup_model_link_def BACKUP_MODEL_LINKS_def logger_info_def emit_def
        sample_env_def os_path_exists_def os_path_join_def MODEL_LINKS_def Let_def)

text \<open>
  With \<open>force\<close>, a call that returns has downloaded the file: the returned path is the
  cached path and names an existing file.
\<close>

lemma download_model_Return:
  "fst (download_model DJMC model_name cached w) = Return p \<Longrightarrow>
     p = cached \<and> cached \<in> files (snd (download_model DJMC model_name cached w))"
  by (auto simp: download_model_def try_backup_def wget_download_def emit_def Let_def
      split: option.splits if_splits)

lemma check_model_forced_Return:
  assumes "\<not> os_path_exists w model_name"
    and "fst (check_model DJMC model_name True w) = Return p"
  shows "p = os_path_join DJMC model_name \<and> p \<in> files (snd (check_model DJMC model_name True w))"
  using assms
  by (auto simp: check_model_def Let_def os_remove_def split: if_splits
      dest!: download_model_Return)

text \<open>
  When the name matches a backup pattern and both downloads fail, the error line names
  the model, the cache directory and both links, and the process exits with status 1.
\<close>

lemma download_model_both_fail:
  assumes "os_path_join MODEL_LINKS model_name \<notin> reachable w"
    and "get_backup_model_link model_name = Some url"
    and "os_path_join url model_name \<notin> reachable w"
  shows "download_model DJMC model_name cached w =
           (Raise (SystemExit 1),
            logger_error (msg_download_error model_name DJMC
                            (os_path_join MODEL_LINKS model_name) (os_path_join url model_name))
              (emit (Download (os_path_join url model_name) cached)
                 (emit (Download (os_path_join MODEL_LINKS model_name) cached) w)))"
  using assms
  by (simp add: download_model_def try_backup_def wget_download_def emit_def Let_def)

text \<open>
  Claim C8. When the model name is not an existing path and the cached file exists,
  \<^verbatim>\<open>check_model\<close> with \<open>force = True\<close> is the download procedure started in a state
  \<open>w2\<close> from which the cached file has been deleted: the files of \<open>w2\<close> are those of
  the call's state without the cached file, and the trace of \<open>w2\<close> is that of the call's
  state followed by the creation of the cache directory (if it was missing), the
  removal of the cached file and the log line. So the first download attempt comes after
  the removal, for every set of reachable URLs. At the end the files are those at the
  start without the cached file, plus the cached file again when the call returns; when
  the call ends in an exception, the cached file is gone.
\<close>

theorem check_model_force_removes_first:
  assumes "\<not> os_path_exists w model_name" and "os_path_join DJMC model_name \<in> files w"
  shows "(\<exists>w2. check_model DJMC model_name True w =
                  download_model DJMC model_name (os_path_join DJMC model_name) w2
             \<and> os_path_join DJMC model_name \<notin> files w2
             \<and> files w2 = files w - {os_path_join DJMC model_name}
             \<and> trace w2 =
                 trace w @ (if os_path_exists w DJMC then [] else [Makedirs DJMC])
                 @ [Remove (os_path_join DJMC model_name),
                    LogInfo (msg_invalid (os_path_join DJMC model_name))])
       \<and> (\<exists>rest. trace (snd (check_model DJMC model_name True w)) =
            trace w @ (if os_path_exists w DJMC then [] else [Makedirs DJMC])
            @ [Remove (os_path_join DJMC model_name),
               LogInfo (msg_invalid (os_path_join DJMC model_name)),
               Download (os_path_join MODEL_LINKS model_name) (os_path_join DJMC model_name)]
            @ rest)
       \<and> files (snd (check_model DJMC model_name True w)) =
           (case fst (check_model DJMC model_name True w) of
              Return p \<Rightarrow> insert (os_path_join DJMC model_name)
                            (files w - {os_path_join DJMC model_name})
            | Raise e \<Rightarrow> files w - {os_path_join DJMC model_name})
       \<and> (case fst (check_model DJMC model_name True w) of
            Return p \<Rightarrow> p = os_path_join DJMC model_name
          | Raise e \<Rightarrow> os_path_join DJMC model_name \<notin> files (snd (check_model DJMC model_name True w)))"
proof -
  define cached where "cached = os_path_join DJMC model_name"
  define w1 where "w1 = (if \<not> os_path_exists w DJMC then os_makedirs DJMC w else w)"
  define w2 where "w2 = logger_info (msg_invalid cached)
                          (emit (Remove cached) (w1\<lparr>files := files w1 - {cached}\<rparr>))"
  have in1: "cached \<in> files w1"
    using assms(2) by (simp add: w1_def cached_def os_makedirs_def emit_def)
  have f1: "files w1 = files w"
    by (simp add: w1_def os_makedirs_def emit_def)
  have tr1: "trace w1 = trace w @ (if os_path_exists w DJMC then [] else [Makedirs DJMC])"
    by (simp add: w1_def os_makedirs_def emit_def)
  have tr2: "trace w2 = trace w1 @ [Remove cached, LogInfo (msg_invalid cached)]"
    by (simp add: w2_def logger_info_def emit_def)
  have f2: "files w2 = files w - {cached}"
    by (simp add: w2_def logger_info_def emit_def f1)
  have gone: "cached \<notin> files w2"
    by (simp add: f2)
  have rm: "os_remove cached w1 =
              (Return (), emit (Remove cached) (w1\<lparr>files := files w1 - {cached}\<rparr>))"
    using in1 by (simp add: os_remove_def)
  have ex1: "os_path_exists w1 cached"
    using in1 by (simp add: os_path_exists_def)
  have "check_model DJMC model_name True w =
          (if os_path_exists w1 cached then
             (case os_remove cached w1 of
                (Raise e, w2) \<Rightarrow> (Raise e, w2)
              | (Return u, w2) \<Rightarrow>
                  download_model DJMC model_name cached (logger_info (msg_invalid cached) w2))
           else download_model DJMC model_name cached (logger_info (msg_not_found cached) w1))"
    using assms(1) unfolding check_model_def Let_def w1_def cached_def by simp
  then have run: "check_model DJMC model_name True w = download_model DJMC model_name cached w2"
    by (simp add: ex1 rm w2_def)
  have state: "\<exists>w2. check_model DJMC model_name True w =
                  download_model DJMC model_name cached w2
             \<and> cached \<notin> files w2
             \<and> files w2 = files w - {cached}
             \<and> trace w2 =
                 trace w @ (if os_path_exists w DJMC then [] else [Makedirs DJMC])
                 @ [Remove cached, LogInfo (msg_invalid cached)]"
    using run gone f2 tr2 tr1 by (intro exI [of _ w2]) simp
  obtain rest where "trace (snd (download_model DJMC model_name cached w2)) =
      trace w2 @ [Download (os_path_join MODEL_LINKS model_name) cached] @ rest"
    using download_model_trace by blast
  then have first: "\<exists>rest. trace (snd (check_model DJMC model_name True w)) =
            trace w @ (if os_path_exists w DJMC then [] else [Makedirs DJMC])
            @ [Remove cached, LogInfo (msg_invalid cached),
               Download (os_path_join MODEL_LINKS model_name) cached]
            @ rest"
    by (simp add: run tr1 tr2)
  have ret: "\<And>p. fst (download_model DJMC model_name cached w2) = Return p \<Longrightarrow> p = cached"
    by (auto simp: download_model_def try_backup_def wget_download_def Let_def
          split: option.splits if_splits)
  have final: "files (snd (check_model DJMC model_name True w)) =
           (case fst (check_model DJMC model_name True w) of
              Return p \<Rightarrow> insert cached (files w - {cached})
            | Raise e \<Rightarrow> files w - {cached})"
    using download_model_files [of DJMC model_name cached w2]
    by (simp add: run f2 split: outcome.splits)
  have second: "(case fst (check_model DJMC model_name True w) of
            Return p \<Rightarrow> p = cached
          | Raise e \<Rightarrow> cached \<notin> files (snd (check_model DJMC model_name True w)))"
    using gone ret download_model_files [of DJMC model_name cached w2]
    by (simp add: run split: outcome.splits)
  from state first final second show ?thesis
    unfolding cached_def by blast
qed

theorem check_model_force_removes_first_witness:
  "\<not> os_path_exists (sample_env {''/cache/lid.176.bin''} {}) ''lid.176.bin''
   \<and> os_path_join ''/cache'' ''lid.176.bin'' \<in> files (sample_env {''/cache/lid.176.bin''} {})
   \<and> (\<exists>rest. trace (snd (check_model ''/cache'' ''lid.176.bin'' True
                             (sample_env {''/cache/lid.176.bin''} {}))) =
        [Remove ''/cache/lid.176.bin'', LogInfo (msg_invalid ''/cache/lid.176.bin''),
         Download (os_path_join MODEL_LINKS ''lid.176.bin'') ''/cache/lid.176.bin''] @ rest)
   \<and> fst (check_model ''/cache'' ''lid.176.bin'' True (sample_env {''/cache/lid.176.bin''} {}))
       = Raise (SystemExit 1)
   \<and> files (snd (check_model ''/cache'' ''lid.176.bin'' True
                    (sample_env {''/cache/lid.176.bin''} {}))) = {}"
proof -
  have j: "os_path_join ''/cache'' ''lid.176.bin'' = ''/cache/lid.176.bin''"
    by (simp add: os_path_join_def)
  have h1: "\<not> os_path_exists (sample_env {''/cache/lid.176.bin''} {}) ''lid.176.bin''"
    by (simp add: sample_env_def os_path_exists_def)
  have h2: "os_path_join ''/cache'' ''lid.176.bin''
              \<in> files (sample_env {''/cache/lid.176.bin''} {})"
    by (simp add: j sample_env_def)
  have d: "os_path_exists (sample_env {''/cache/lid.176.bin''} {}) ''/cache''"
    and f: "files (sample_env {''/cache/lid.176.bin''} {}) = {''/cache/lid.176.bin''}"
    and t: "trace (sample_env {''/cache/lid.176.bin''} {}) = []"
    by (simp_all add: sample_env_def os_path_exists_def)
  have r: "fst (check_model ''/cache'' ''lid.176.bin'' True
                  (sample_env {''/cache/lid.176.bin''} {})) = Raise (SystemExit 1)"
    by (simp add: check_model_def download_model_def try_backup_def wget_download_def
          os_remove_def get_backup_model_link_def BACKUP_MODEL_LINKS_def logger_info_def
          logger_error_def emit_def sample_env_def os_path_exists_def os_path_join_def
          MODEL_LINKS_def Let_def)
  from check_model_force_removes_first [OF h1 h2]
  have "(\<exists>rest. trace (snd (check_model ''/cache'' ''lid.176.bin'' True
                             (sample_env {''/cache/lid.176.bin''} {}))) =
        [Remove ''/cache/lid.176.bin'', LogInfo (msg_invalid ''/cache/lid.176.bin''),
         Download (os_path_join MODEL_LINKS ''lid.176.bin'') ''/cache/lid.176.bin''] @ rest)
      \<and> files (snd (check_model ''/cache'' ''lid.176.bin'' True
                    (sample_env {''/cache/lid.176.bin''} {}))) = {}"
    by (simp add: j r d f t)
  with h1 h2 r show ?thesis by simp
qed

text \<open>
  Claim C10. When the model name is an existing path, \<^verbatim>\<open>check_model\<close> returns the name
  and the environment it was given, for either value of \<open>force\<close>: no file is removed,
  no directory is created, nothing is downloaded or logged.
\<close>

theorem check_model_existing_path:
  "os_path_exists w model_name \<Longrightarrow>
     check_model DJMC model_name force w = (Return model_name, w)"
  by (simp add: check_model_def)

theorem check_model_existing_path_witness:
  "os_path_exists (sample_env {''./my/lid.176.bin''} {}) ''./my/lid.176.bin''
   \<and> check_model ''/tmp/models'' ''./my/lid.176.bin'' True (sample_env {''./my/lid.176.bin''} {})
       = (Return ''./my/lid.176.bin'', sample_env {''./my/lid.176.bin''} {})"
  using check_model_existing_path
          [of "sample_env {''./my/lid.176.bin''} {}" "''./my/lid.176.bin''" "''/tmp/models''" True]
  by (simp add: sample_env_def os_path_exists_def)

section \<open>Properties of \<^verbatim>\<open>move_to_cuda\<close>\<close>

text \<open>
  When every module that has a method \<^verbatim>\<open>to\<close> also has an attribute \<^verbatim>\<open>device\<close>, the loop
  returns, and the calls of \<^verbatim>\<open>to\<close> that it adds to the trace are those of the modules
  with a method \<^verbatim>\<open>to\<close>, in order, each with the device \<^verbatim>\<open>cuda:<rank>\<close>.
\<close>

lemma module_to_attrs:
  "callable_to (module_to m dev w) r = callable_to w r
   \<and> class_name_of (module_to m dev w) r = class_name_of w r
   \<and> (device_of (module_to m dev w) r = None) = (device_of w r = None)
   \<and> (device_of w m \<noteq> None \<longrightarrow> device_of (module_to m dev w) m = Some dev)"
  by (auto simp: module_to_def callable_to_def class_name_of_def device_of_def emit_def
      split: pyobj.splits)

lemma log_attrs:
  "callable_to (logger_info msg w) r = callable_to w r"
  "device_of (logger_info msg w) r = device_of w r"
  "callable_to (logger_debug msg w) r = callable_to w r"
  "device_of (logger_debug msg w) r = device_of w r"
  by (simp_all add: logger_info_def logger_debug_def emit_def callable_to_def device_of_def)

lemma move_modules_places_all:
  assumes "\<forall>m\<in>set ms. callable_to w m \<longrightarrow> device_of w m \<noteq> None"
  shows "fst (move_modules ms rank w) = Return ()
       \<and> filter is_call (trace (snd (move_modules ms rank w))) =
           filter is_call (trace w)
           @ map (\<lambda>m. CallTo m (''cuda:'' @ str_int rank)) (filter (callable_to w) ms)"
  using assms
proof (induction ms arbitrary: w)
  case Nil
  then show ?case by simp
next
  case (Cons m ms)
  show ?case
  proof (cases "callable_to w m")
    case False
    then show ?thesis using Cons by simp
  next
    case True
    define dev where "dev = ''cuda:'' @ str_int rank"
    define w1 where "w1 = logger_info
                    (''Moving '' @ class_name_of w m @ '' to CUDA device '' @ str_int rank) w"
    define w2 where "w2 = module_to m dev w1"
    define w3 where "w3 = logger_debug (class_name_of w2 m @ '' is on device '' @ dev) w2"
    have dev_m: "device_of w2 m = Some dev"
      using Cons.prems True module_to_attrs [of m dev w1 m]
      by (simp add: w2_def w1_def log_attrs)
    have same: "\<And>r. callable_to w3 r = callable_to w r"
      "\<And>r. (device_of w3 r = None) = (device_of w r = None)"
      using module_to_attrs [of m dev w1] by (simp_all add: w3_def w2_def w1_def log_attrs)
    have step: "move_modules (m # ms) rank w = move_modules ms rank w3"
      using True dev_m unfolding w3_def w2_def w1_def dev_def by (simp add: Let_def)
    have tr: "filter is_call (trace w3) = filter is_call (trace w) @ [CallTo m dev]"
      by (simp add: w3_def w2_def w1_def logger_debug_def logger_info_def module_to_def emit_def)
    have pre: "\<forall>m\<in>set ms. callable_to w3 m \<longrightarrow> device_of w3 m \<noteq> None"
      using Cons.prems same by simp
    have flt: "filter (callable_to w3) ms = filter (callable_to w) ms"
      using same by (simp cong: filter_cong)
    from Cons.IH [OF pre] show ?thesis
      unfolding step tr flt using True by (simp add: dev_def del: move_modules.simps)
  qed
qed

lemma move_to_cuda_places_all:
  assumes "\<forall>m\<in>set (as_tuple w model). callable_to w m \<longrightarrow> device_of w m \<noteq> None"
  shows "fst (move_to_cuda model rank w) = Return ()
       \<and> filter is_call (trace (snd (move_to_cuda model rank w))) =
           filter is_call (trace w)
           @ map (\<lambda>m. CallTo m (''cuda:'' @ str_int rank))
               (filter (callable_to w) (as_tuple w model))"
  unfolding move_to_cuda_def using assms by (rule move_modules_places_all)

text \<open>
  Claim C7 (the code departs from it). For the pair of a \<^verbatim>\<open>Linear\<close> layer and a
  \<^verbatim>\<open>BertModel\<close>, both with a method \<^verbatim>\<open>to\<close>, \<^verbatim>\<open>move_to_cuda\<close> calls \<^verbatim>\<open>to\<close> on the layer
  and then raises \<^verbatim>\<open>AttributeError\<close>, because the debug line reads the attribute
  \<^verbatim>\<open>device\<close> that the layer does not have: \<^verbatim>\<open>to\<close> of the second module is never called.
\<close>

theorem move_to_cuda_stops_at_missing_device:
  "fst (move_to_cuda 4 0 cuda_env) = Raise (AttributeError ''device'')
   \<and> trace (snd (move_to_cuda 4 0 cuda_env)) =
       [LogInfo ''Moving Linear to CUDA device 0'', CallTo 1 ''cuda:0'']
   \<and> callable_to cuda_env 2"
  by (simp add: move_to_cuda_def as_tuple_def cuda_env_def sample_env_def sample_heap_def callable_to_def
        class_name_of_def device_of_def module_to_def logger_info_def emit_def str_int_def
        str_nat.simps [of 0] Let_def)

section \<open>Properties of the table of loaded models\<close>

lemma dict_get_dict_set_same: "dict_get (dict_set z key v) key = Some v"
  by (induction z) (auto simp: py_eq_def)

lemma dict_get_dict_set_other:
  "\<not> py_eq key k \<Longrightarrow> dict_get (dict_set z key v) k = dict_get z k"
  by (induction z) (auto simp: py_eq_def)

text \<open>\<^verbatim>\<open>get_model\<close> on a key that is bound: no construction, only the placement.\<close>

lemma get_model_bound:
  assumes "dict_get (MODEL_ZOO s) key = Some model"
  shows "get_model L (Some key) rank s =
     (if cuda (environment s) then
        (case move_to_cuda model (case rank of None \<Rightarrow> 0 | Some r \<Rightarrow> r) (environment s) of
           (Return u, w) \<Rightarrow> (Return (Some model), s\<lparr>environment := w\<rparr>)
         | (Raise e, w) \<Rightarrow> (Raise e, s\<lparr>environment := w\<rparr>))
      else (Return (Some model), s))"
  using assms
  by (simp add: get_model_def materialize_def place_model_def zoo_getitem_def
        dict_contains_def Let_def split: prod.splits outcome.splits)

text \<open>What a successful \<^verbatim>\<open>prepare_model\<close> has done.\<close>

lemma prepare_model_Return:
  assumes "prepare_model L model_type model_kwargs s = (Return key, s1)"
  shows "\<exists>model w.
           L model_type model_kwargs (environment s) = (Return model, w)
         \<and> model_type \<in> set MODEL_FUNCTION_MAPPING_keys
         \<and> key = \<lparr>ident = next_ident s, func = model_type, kwds = model_kwargs\<rparr>
         \<and> s1 = s\<lparr>next_ident := Suc (next_ident s), environment := w,
                   constructed := constructed s @ [key],
                   MODEL_ZOO := dict_set (MODEL_ZOO s) key model\<rparr>"
  using assms
  by (auto simp: prepare_model_def new_partial_def call_partial_def
      split: if_splits prod.splits outcome.splits)

text \<open>
  Claim C5. When \<^verbatim>\<open>prepare_model\<close> returns a key, the loader returned some object
  \<open>model\<close> and the table binds the key to it. \<^verbatim>\<open>get_model\<close> on that key then constructs
  nothing and leaves the table as it is, and what it returns is that same reference
  \<open>model\<close>; the only other outcome is an exception out of \<^verbatim>\<open>move_to_cuda\<close>, which is
  called only under \<^verbatim>\<open>use_cuda()\<close>.
\<close>

theorem prepare_model_then_get_model:
  assumes "prepare_model L model_type model_kwargs s = (Return key, s1)"
  shows "\<exists>model. fst (L model_type model_kwargs (environment s)) = Return model
        \<and> dict_get (MODEL_ZOO s1) key = Some model
        \<and> constructed (snd (get_model L (Some key) rank s1)) = constructed s1
        \<and> MODEL_ZOO (snd (get_model L (Some key) rank s1)) = MODEL_ZOO s1
        \<and> fst (get_model L (Some key) rank s1) =
            (if cuda (environment s1) then
               (case fst (move_to_cuda model (case rank of None \<Rightarrow> 0 | Some r \<Rightarrow> r)
                            (environment s1)) of
                  Return u \<Rightarrow> Return (Some model)
                | Raise e \<Rightarrow> Raise e)
             else Return (Some model))"
proof -
  obtain model w where L: "L model_type model_kwargs (environment s) = (Return model, w)"
    and s1: "s1 = s\<lparr>next_ident := Suc (next_ident s), environment := w,
                   constructed := constructed s @ [key],
                   MODEL_ZOO := dict_set (MODEL_ZOO s) key model\<rparr>"
    using prepare_model_Return [OF assms] by blast
  have bound: "dict_get (MODEL_ZOO s1) key = Some model"
    by (simp add: s1 dict_get_dict_set_same)
  show ?thesis
    using L bound
    by (auto simp: get_model_bound [OF bound] split: prod.splits outcome.splits)
qed

theorem prepare_model_then_get_model_witness:
  "fst (prepare_model stub_loader ''fasttext'' [] (start_state cuda_env)) = Return (fasttext_key 0)
   \<and> fst (get_model stub_loader (Some (fasttext_key 0)) None
             (snd (prepare_model stub_loader ''fasttext'' [] (start_state cuda_env))))
       = Return (Some 0)
   \<and> constructed (snd (get_model stub_loader (Some (fasttext_key 0)) None
             (snd (prepare_model stub_loader ''fasttext'' [] (start_state cuda_env)))))
       = [fasttext_key 0]"
proof -
  define s1 where "s1 = snd (prepare_model stub_loader ''fasttext'' [] (start_state cuda_env))"
  have env1: "environment s1 = logger_info ''Loading fasttext'' cuda_env"
    and con1: "constructed s1 = [fasttext_key 0]"
    and ret: "fst (prepare_model stub_loader ''fasttext'' [] (start_state cuda_env))
                = Return (fasttext_key 0)"
    by (simp_all add: s1_def prepare_model_def new_partial_def call_partial_def stub_loader_def
          start_state_def fasttext_key_def MODEL_FUNCTION_MAPPING_keys_def)
  have reg: "prepare_model stub_loader ''fasttext'' [] (start_state cuda_env)
               = (Return (fasttext_key 0), s1)"
    using ret by (simp add: s1_def prod_eq_iff)
  have load: "fst (stub_loader ''fasttext'' [] (environment (start_state cuda_env))) = Return 0"
    by (simp add: stub_loader_def start_state_def cuda_env_def sample_env_def)
  have mv: "fst (move_to_cuda 0 0 (environment s1)) = Return ()"
    by (simp add: env1 move_to_cuda_def as_tuple_def cuda_env_def sample_env_def sample_heap_def
          callable_to_def class_name_of_def device_of_def module_to_def logger_info_def
          logger_debug_def emit_def Let_def)
  have cu: "cuda (environment s1)"
    by (simp add: env1 cuda_env_def logger_info_def emit_def)
  from prepare_model_then_get_model [OF reg, of None] load mv cu con1 ret
  show ?thesis
    unfolding s1_def [symmetric] by auto
qed

text \<open>
  Claim C6. \<^verbatim>\<open>get_model\<close> with the key \<^verbatim>\<open>None\<close> returns \<^verbatim>\<open>None\<close> and the state it was
  given, for every rank and every loader: the table, the list of constructions, the
  files, the heap and the trace are unchanged.
\<close>

theorem get_model_None:
  "get_model L None rank s = (Return None, s)"
  by (simp add: get_model_def)

lemma registered_state_eq:
  "registered_state =
     \<lparr>environment = logger_info ''Loading fasttext'' (sample_env {} {}),
      MODEL_ZOO = [(fasttext_key 0, 0)], next_ident = 1, constructed = [fasttext_key 0]\<rparr>"
  by (simp add: registered_state_def prepare_model_def new_partial_def call_partial_def
        stub_loader_def start_state_def fasttext_key_def MODEL_FUNCTION_MAPPING_keys_def
        sample_env_def)

subsection \<open>The table only grows\<close>

lemma dict_get_py_eq: "py_eq key k \<Longrightarrow> dict_get z key = dict_get z k"
  by (induction z) (auto simp: py_eq_def)

lemma dict_get_fresh:
  "list_all (\<lambda>item. ident (fst item) < n) z \<Longrightarrow> n \<le> ident key \<Longrightarrow> dict_get z key = None"
  by (induction z) (auto simp: py_eq_def)

lemma dict_set_persist:
  assumes "dict_get z k = Some x" and "dict_get z key = None"
  shows "dict_get (dict_set z key v) k = Some x"
proof -
  have "\<not> py_eq key k"
    using assms dict_get_py_eq [of key k z] by auto
  then show ?thesis
    using assms(1) by (simp add: dict_get_dict_set_other)
qed

lemma dict_set_length: "length z \<le> length (dict_set z key v)"
  by (induction z) auto

lemma dict_set_idents:
  "map (\<lambda>item. ident (fst item)) (dict_set z key v) =
     (if ident key \<in> set (map (\<lambda>item. ident (fst item)) z)
      then map (\<lambda>item. ident (fst item)) z
      else map (\<lambda>item. ident (fst item)) z @ [ident key])"
  by (induction z) (force simp: py_eq_def)+

lemma dict_set_distinct:
  "distinct (map (\<lambda>item. ident (fst item)) z) \<Longrightarrow>
   distinct (map (\<lambda>item. ident (fst item)) (dict_set z key v))"
  unfolding dict_set_idents by simp

lemma dict_set_bound:
  "list_all (\<lambda>item. ident (fst item) < n) z \<Longrightarrow> ident key < n \<Longrightarrow>
   list_all (\<lambda>item. ident (fst item) < n) (dict_set z key v)"
  by (induction z) (auto simp: py_eq_def)

lemma list_all_bound_mono:
  "list_all (\<lambda>item. ident (fst item) < n) z \<Longrightarrow> n \<le> m \<Longrightarrow>
   list_all (\<lambda>item. ident (fst item) < (m::nat)) z"
  by (induction z) auto

lemma prepare_model_shape:
  "(MODEL_ZOO (snd (prepare_model L t kw s)) = MODEL_ZOO s
      \<and> next_ident s \<le> next_ident (snd (prepare_model L t kw s))
      \<and> next_ident (snd (prepare_model L t kw s)) \<le> Suc (next_ident s))
   \<or> (\<exists>model. MODEL_ZOO (snd (prepare_model L t kw s))
                 = dict_set (MODEL_ZOO s) \<lparr>ident = next_ident s, func = t, kwds = kw\<rparr> model
        \<and> next_ident (snd (prepare_model L t kw s)) = Suc (next_ident s))"
  by (auto simp: prepare_model_def new_partial_def call_partial_def
      split: prod.splits outcome.splits)

lemma materialize_shape:
  "(MODEL_ZOO (snd (materialize L key s)) = MODEL_ZOO s
    \<or> (dict_get (MODEL_ZOO s) key = None
        \<and> (\<exists>model. MODEL_ZOO (snd (materialize L key s)) = dict_set (MODEL_ZOO s) key model)))
   \<and> next_ident (snd (materialize L key s)) = next_ident s"
  by (auto simp: materialize_def call_partial_def dict_contains_def
      split: prod.splits outcome.splits)

lemma place_model_frame:
  "MODEL_ZOO (snd (place_model key rank s)) = MODEL_ZOO s
   \<and> next_ident (snd (place_model key rank s)) = next_ident s
   \<and> constructed (snd (place_model key rank s)) = constructed s"
  by (auto simp: place_model_def Let_def split: prod.splits outcome.splits)

lemma get_model_shape:
  "(MODEL_ZOO (snd (get_model L (Some key) rank s)) = MODEL_ZOO s
    \<or> (dict_get (MODEL_ZOO s) key = None
        \<and> (\<exists>model. MODEL_ZOO (snd (get_model L (Some key) rank s))
                      = dict_set (MODEL_ZOO s) key model)))
   \<and> next_ident (snd (get_model L (Some key) rank s)) = next_ident s"
proof -
  have "MODEL_ZOO (snd (get_model L (Some key) rank s)) = MODEL_ZOO (snd (materialize L key s))
      \<and> next_ident (snd (get_model L (Some key) rank s)) = next_ident (snd (materialize L key s))"
    using place_model_frame [of key rank "snd (materialize L key s)"]
    by (auto simp: get_model_def split: prod.splits outcome.splits)
  then show ?thesis
    using materialize_shape [of L key s] by simp
qed


lemma serve_step:
  assumes wf: "zoo_wf s" and live: "request_live r s"
  shows "zoo_wf (serve L r s)
       \<and> (dict_get (MODEL_ZOO s) k = Some v \<longrightarrow> dict_get (MODEL_ZOO (serve L r s)) k = Some v)
       \<and> length (MODEL_ZOO s) \<le> length (MODEL_ZOO (serve L r s))"
proof (cases r)
  case (Register t kw)
  define key where "key = \<lparr>ident = next_ident s, func = t, kwds = kw\<rparr>"
  have fresh: "dict_get (MODEL_ZOO s) key = None"
    using wf by (simp add: zoo_wf_def key_def dict_get_fresh [of "next_ident s"])
  from prepare_model_shape [of L t kw s]
  show ?thesis
  proof (elim disjE conjE exE)
    assume "MODEL_ZOO (snd (prepare_model L t kw s)) = MODEL_ZOO s"
      and "next_ident s \<le> next_ident (snd (prepare_model L t kw s))"
    then show ?thesis
      using wf Register by (auto simp: zoo_wf_def elim: list_all_bound_mono)
  next
    fix model
    assume z: "MODEL_ZOO (snd (prepare_model L t kw s))
                 = dict_set (MODEL_ZOO s) \<lparr>ident = next_ident s, func = t, kwds = kw\<rparr> model"
      and n: "next_ident (snd (prepare_model L t kw s)) = Suc (next_ident s)"
    have "list_all (\<lambda>item. ident (fst item) < Suc (next_ident s)) (MODEL_ZOO s)"
      using wf by (auto simp: zoo_wf_def elim: list_all_bound_mono)
    then have "list_all (\<lambda>item. ident (fst item) < Suc (next_ident s))
                 (dict_set (MODEL_ZOO s) key model)"
      by (rule dict_set_bound) (simp add: key_def)
    then show ?thesis
      using wf Register z n fresh
      by (simp add: zoo_wf_def key_def [symmetric] dict_set_distinct dict_set_persist
            dict_set_length)
  qed
next
  case (Get model_key rank)
  show ?thesis
  proof (cases model_key)
    case None
    then show ?thesis using wf Get by (simp add: get_model_def)
  next
    case (Some key)
    have lt: "ident key < next_ident s"
      using live Get Some by simp
    from get_model_shape [of L key rank s]
    show ?thesis
    proof (elim disjE conjE exE)
      assume "MODEL_ZOO (snd (get_model L (Some key) rank s)) = MODEL_ZOO s"
        and "next_ident (snd (get_model L (Some key) rank s)) = next_ident s"
      then show ?thesis
        using wf Get Some by (simp add: zoo_wf_def)
    next
      fix model
      assume "dict_get (MODEL_ZOO s) key = None"
        and "MODEL_ZOO (snd (get_model L (Some key) rank s)) = dict_set (MODEL_ZOO s) key model"
        and "next_ident (snd (get_model L (Some key) rank s)) = next_ident s"
      then show ?thesis
        using wf Get Some lt
        by (simp add: zoo_wf_def dict_set_distinct dict_set_persist dict_set_length
              dict_set_bound)
    qed
  qed
next
  case (Place model rank)
  then show ?thesis using wf by (simp add: zoo_wf_def)
qed

lemma serve_all_append: "serve_all L (rs1 @ rs2) s = serve_all L rs2 (serve_all L rs1 s)"
  by (induction rs1 arbitrary: s) auto

lemma live_run_append:
  "live_run L (rs1 @ rs2) s = (live_run L rs1 s \<and> live_run L rs2 (serve_all L rs1 s))"
  by (induction rs1 arbitrary: s) auto

lemma serve_all_wf:
  "zoo_wf s \<Longrightarrow> live_run L rs s \<Longrightarrow> zoo_wf (serve_all L rs s)"
  by (induction rs arbitrary: s) (auto simp: serve_step)

lemma serve_all_persist:
  "zoo_wf s \<Longrightarrow> live_run L rs s \<Longrightarrow> dict_get (MODEL_ZOO s) k = Some v \<Longrightarrow>
     dict_get (MODEL_ZOO (serve_all L rs s)) k = Some v
     \<and> length (MODEL_ZOO s) \<le> length (MODEL_ZOO (serve_all L rs s))"
proof (induction rs arbitrary: s)
  case Nil
  then show ?case by simp
next
  case (Cons r rs)
  have step: "zoo_wf (serve L r s)" "dict_get (MODEL_ZOO (serve L r s)) k = Some v"
    "length (MODEL_ZOO s) \<le> length (MODEL_ZOO (serve L r s))"
    using serve_step [of s r L k v] Cons.prems by auto
  have "live_run L rs (serve L r s)"
    using Cons.prems by simp
  from Cons.IH [OF step(1) this step(2)] step(3)
  show ?case by auto
qed

text \<open>
  Claim C9, as the code has it. The keys of the table are \<^verbatim>\<open>partial\<close> objects, compared
  by identity. Start in a state whose table is well formed (the empty table of a fresh
  process is) and serve any list of \<^verbatim>\<open>prepare_model\<close>, \<^verbatim>\<open>get_model\<close> and \<^verbatim>\<open>move_to_cuda\<close>
  calls, one after the other, each \<^verbatim>\<open>get_model\<close> on a key object that exists when it is
  called. A binding of a key object that the table holds at some point of the run is
  still there, with the same value, at every later point; no two items of the table
  ever have the same key object; and the table never gets shorter.
\<close>

theorem model_zoo_bindings_persist:
  assumes "zoo_wf s" and "live_run L (rs1 @ rs2) s"
    and "dict_get (MODEL_ZOO (serve_all L rs1 s)) k = Some v"
  shows "dict_get (MODEL_ZOO (serve_all L (rs1 @ rs2) s)) k = Some v
       \<and> distinct (map (\<lambda>item. ident (fst item)) (MODEL_ZOO (serve_all L (rs1 @ rs2) s)))
       \<and> length (MODEL_ZOO (serve_all L rs1 s)) \<le> length (MODEL_ZOO (serve_all L (rs1 @ rs2) s))"
proof -
  have l1: "live_run L rs1 s" and l2: "live_run L rs2 (serve_all L rs1 s)"
    using assms(2) by (simp_all add: live_run_append)
  have wf1: "zoo_wf (serve_all L rs1 s)"
    using assms(1) l1 by (rule serve_all_wf)
  have wf2: "zoo_wf (serve_all L (rs1 @ rs2) s)"
    using assms(1,2) by (rule serve_all_wf)
  from serve_all_persist [OF wf1 l2 assms(3)] wf2
  show ?thesis
    by (simp add: serve_all_append zoo_wf_def)
qed

theorem model_zoo_bindings_persist_witness:
  "zoo_wf (start_state (sample_env {} {}))
   \<and> live_run stub_loader
        ([Register ''fasttext'' []]
         @ [Get (Some (fasttext_key 0)) None, Register ''fasttext'' [], Place 0 1])
        (start_state (sample_env {} {}))
   \<and> dict_get (MODEL_ZOO (serve_all stub_loader [Register ''fasttext'' []]
                              (start_state (sample_env {} {})))) (fasttext_key 0) = Some 0
   \<and> dict_get (MODEL_ZOO (serve_all stub_loader
                   ([Register ''fasttext'' []]
                    @ [Get (Some (fasttext_key 0)) None, Register ''fasttext'' [], Place 0 1])
                   (start_state (sample_env {} {})))) (fasttext_key 0) = Some 0"
proof -
  have wf: "zoo_wf (start_state (sample_env {} {}))"
    by (simp add: zoo_wf_def start_state_def)
  note s1 = registered_state_def [symmetric]
  have b1: "dict_get (MODEL_ZOO registered_state) (fasttext_key 0) = Some 0"
    by (simp add: registered_state_eq py_eq_def)
  have g: "snd (get_model stub_loader (Some (fasttext_key 0)) None registered_state)
             = registered_state"
    using get_model_bound [OF b1, of stub_loader None]
    by (simp add: registered_state_eq logger_info_def emit_def sample_env_def)
  have n2: "next_ident registered_state = 1"
    by (simp add: registered_state_eq)
  have live: "live_run stub_loader
        ([Register ''fasttext'' []]
         @ [Get (Some (fasttext_key 0)) None, Register ''fasttext'' [], Place 0 1])
        (start_state (sample_env {} {}))"
    by (simp add: s1 g n2 fasttext_key_def)
  have b: "dict_get (MODEL_ZOO (serve_all stub_loader [Register ''fasttext'' []]
                              (start_state (sample_env {} {})))) (fasttext_key 0) = Some 0"
    by (simp add: s1 b1)
  from model_zoo_bindings_persist [OF wf live b] wf live b
  show ?thesis by simp
qed

text \<open>
  Claim C9 as stated for a configuration, that is a function with its keyword
  arguments, fails. Two calls \<^verbatim>\<open>prepare_model('fasttext')\<close> in a fresh process form a run
  that meets every hypothesis above, and the table ends with two items for the one
  configuration, bound to two different loaded models.
\<close>

theorem one_configuration_two_models:
  "zoo_wf (start_state (sample_env {} {}))
   \<and> live_run stub_loader [Register ''fasttext'' [], Register ''fasttext'' []]
        (start_state (sample_env {} {}))
   \<and> MODEL_ZOO (serve_all stub_loader [Register ''fasttext'' [], Register ''fasttext'' []]
                  (start_state (sample_env {} {})))
       = [(fasttext_key 0, 0), (fasttext_key 1, 1)]
   \<and> func (fasttext_key 0) = func (fasttext_key 1)
   \<and> kwds (fasttext_key 0) = kwds (fasttext_key 1)"
  by (simp add: zoo_wf_def prepare_model_def new_partial_def call_partial_def stub_loader_def
        start_state_def fasttext_key_def MODEL_FUNCTION_MAPPING_keys_def py_eq_def
        sample_env_def logger_info_def emit_def)

subsection \<open>Keys are compared by identity\<close>

lemma dict_set_absent: "dict_get z key = None \<Longrightarrow> dict_set z key v = z @ [(key, v)]"
  by (induction z) (auto split: if_splits)

lemma get_model_absent:
  assumes "\<not> dict_contains (MODEL_ZOO s) key"
    and "fst (L (func key) (kwds key) (emit (LogNotFound (ident key)) (environment s)))
           = Return model"
  shows "MODEL_ZOO (snd (get_model L (Some key) rank s)) = dict_set (MODEL_ZOO s) key model
       \<and> constructed (snd (get_model L (Some key) rank s)) = constructed s @ [key]"
proof -
  obtain w where L: "L (func key) (kwds key) (emit (LogNotFound (ident key)) (environment s))
                       = (Return model, w)"
    using assms(2) by (cases "L (func key) (kwds key) (emit (LogNotFound (ident key)) (environment s))") simp
  define s1 where "s1 = s\<lparr>environment := w, constructed := constructed s @ [key],
                          MODEL_ZOO := dict_set (MODEL_ZOO s) key model\<rparr>"
  have m: "materialize L key s = (Return (), s1)"
    using assms(1) L by (simp add: materialize_def call_partial_def s1_def)
  have "MODEL_ZOO (snd (get_model L (Some key) rank s)) = MODEL_ZOO s1
      \<and> constructed (snd (get_model L (Some key) rank s)) = constructed s1"
    using place_model_frame [of key rank s1]
    by (auto simp: get_model_def m split: prod.splits outcome.splits)
  then show ?thesis by (simp add: s1_def)
qed

lemma get_model_absent_constructed:
  assumes "\<not> dict_contains (MODEL_ZOO s) key"
  shows "constructed (snd (get_model L (Some key) rank s)) = constructed s @ [key]"
proof (cases "L (func key) (kwds key) (emit (LogNotFound (ident key)) (environment s))")
  case (Pair r w)
  show ?thesis
  proof (cases r)
    case (Raise e)
    then show ?thesis
      using assms Pair by (simp add: get_model_def materialize_def call_partial_def)
  next
    case (Return model)
    then have "fst (L (func key) (kwds key) (emit (LogNotFound (ident key)) (environment s)))
                 = Return model"
      using Pair by simp
    with get_model_absent [of s key L model rank] assms show ?thesis by simp
  qed
qed

text \<open>
  Claim C3, as the code has it. A key of the table is a \<^verbatim>\<open>partial\<close> object and keys are
  compared by identity, not by function and keyword arguments.
  \<^item> The key that a successful \<^verbatim>\<open>prepare_model\<close> returns carries the function and the
    keyword arguments it was given, and the call constructs exactly once. When the
    table is well formed, that key is equal to no key of the table, also not to one
    with the same function and keyword arguments, and the table gains one item.
  \<^item> \<^verbatim>\<open>get_model\<close> on a key that the table does not hold constructs exactly once,
    whether the loader returns or raises. When the loader returns, the result is bound
    to that key, and a second \<^verbatim>\<open>get_model\<close> on that same key object constructs nothing.
\<close>

theorem keys_compared_by_identity:
  "(prepare_model L model_type model_kwargs s = (Return key, s1) \<longrightarrow>
      func key = model_type \<and> kwds key = model_kwargs
      \<and> constructed s1 = constructed s @ [key]
      \<and> (zoo_wf s \<longrightarrow>
            list_all (\<lambda>item. \<not> py_eq (fst item) key) (MODEL_ZOO s)
          \<and> length (MODEL_ZOO s1) = Suc (length (MODEL_ZOO s))))
   \<and> (\<not> dict_contains (MODEL_ZOO s) key2 \<longrightarrow>
      constructed (snd (get_model L (Some key2) rank s)) = constructed s @ [key2]
      \<and> (fst (L (func key2) (kwds key2) (emit (LogNotFound (ident key2)) (environment s)))
            = Return model2 \<longrightarrow>
            dict_get (MODEL_ZOO (snd (get_model L (Some key2) rank s))) key2 = Some model2
          \<and> constructed (snd (get_model L (Some key2) rank2
                                  (snd (get_model L (Some key2) rank s))))
              = constructed s @ [key2]))"
proof (intro conjI impI)
  assume reg: "prepare_model L model_type model_kwargs s = (Return key, s1)"
  obtain model w where key: "key = \<lparr>ident = next_ident s, func = model_type, kwds = model_kwargs\<rparr>"
    and s1: "s1 = s\<lparr>next_ident := Suc (next_ident s), environment := w,
                   constructed := constructed s @ [key],
                   MODEL_ZOO := dict_set (MODEL_ZOO s) key model\<rparr>"
    using prepare_model_Return [OF reg] by blast
  show "func key = model_type" and "kwds key = model_kwargs"
    by (simp_all add: key)
  show "constructed s1 = constructed s @ [key]"
    by (simp add: s1)
  assume wf: "zoo_wf s"
  have bound: "list_all (\<lambda>item. ident (fst item) < next_ident s) (MODEL_ZOO s)"
    using wf by (simp add: zoo_wf_def)
  show "list_all (\<lambda>item. \<not> py_eq (fst item) key) (MODEL_ZOO s)"
    using bound by (induction "MODEL_ZOO s") (auto simp: key py_eq_def list_all_iff)
  have none: "dict_get (MODEL_ZOO s) key = None"
    using bound by (simp add: key dict_get_fresh [of "next_ident s"])
  show "length (MODEL_ZOO s1) = Suc (length (MODEL_ZOO s))"
    by (simp add: s1 dict_set_absent [OF none])
next
  assume absent: "\<not> dict_contains (MODEL_ZOO s) key2"
  show "constructed (snd (get_model L (Some key2) rank s)) = constructed s @ [key2]"
    using absent by (rule get_model_absent_constructed)
  assume load: "fst (L (func key2) (kwds key2) (emit (LogNotFound (ident key2)) (environment s)))
                 = Return model2"
  define s2 where "s2 = snd (get_model L (Some key2) rank s)"
  have g: "MODEL_ZOO s2 = dict_set (MODEL_ZOO s) key2 model2"
    "constructed s2 = constructed s @ [key2]"
    using get_model_absent [of s key2 L model2 rank] absent load by (simp_all add: s2_def)
  have b2: "dict_get (MODEL_ZOO s2) key2 = Some model2"
    by (simp add: g dict_get_dict_set_same)
  have again: "constructed (snd (get_model L (Some key2) rank2 s2)) = constructed s2"
    by (simp add: get_model_bound [OF b2] split: prod.splits outcome.splits)
  show "dict_get (MODEL_ZOO (snd (get_model L (Some key2) rank s))) key2 = Some model2"
    using b2 by (simp add: s2_def)
  show "constructed (snd (get_model L (Some key2) rank2 (snd (get_model L (Some key2) rank s))))
          = constructed s @ [key2]"
    using again g by (simp add: s2_def)
qed

lemma copied_key_state_eq:
  "copied_key_state =
     \<lparr>environment = logger_info ''Loading fasttext'' (sample_env {} {}),
      MODEL_ZOO = [(fasttext_key 0, 0)], next_ident = 2, constructed = [fasttext_key 0]\<rparr>"
  by (simp add: copied_key_state_def new_partial_def registered_state_eq)

theorem keys_compared_by_identity_witness:
  "zoo_wf copied_key_state
   \<and> fst (prepare_model stub_loader ''fasttext'' [] copied_key_state) = Return (fasttext_key 2)
   \<and> \<not> dict_contains (MODEL_ZOO copied_key_state) (fasttext_key 1)
   \<and> fst (stub_loader (func (fasttext_key 1)) (kwds (fasttext_key 1))
            (emit (LogNotFound (ident (fasttext_key 1))) (environment copied_key_state)))
       = Return 2
   \<and> list_all (\<lambda>item. \<not> py_eq (fst item) (fasttext_key 2)) (MODEL_ZOO copied_key_state)
   \<and> constructed (snd (get_model stub_loader (Some (fasttext_key 1)) None copied_key_state))
       = [fasttext_key 0, fasttext_key 1]
   \<and> dict_get (MODEL_ZOO (snd (get_model stub_loader (Some (fasttext_key 1)) None
                                   copied_key_state))) (fasttext_key 1) = Some 2"
proof -
  have wf: "zoo_wf copied_key_state"
    by (simp add: zoo_wf_def copied_key_state_eq fasttext_key_def)
  have ret: "fst (prepare_model stub_loader ''fasttext'' [] copied_key_state)
               = Return (fasttext_key 2)"
    by (simp add: copied_key_state_eq prepare_model_def new_partial_def call_partial_def
          stub_loader_def fasttext_key_def MODEL_FUNCTION_MAPPING_keys_def)
  then have reg: "prepare_model stub_loader ''fasttext'' [] copied_key_state
               = (Return (fasttext_key 2),
                  snd (prepare_model stub_loader ''fasttext'' [] copied_key_state))"
    by (simp add: prod_eq_iff)
  have absent: "\<not> dict_contains (MODEL_ZOO copied_key_state) (fasttext_key 1)"
    by (simp add: copied_key_state_eq dict_contains_def py_eq_def fasttext_key_def)
  have load: "fst (stub_loader (func (fasttext_key 1)) (kwds (fasttext_key 1))
                    (emit (LogNotFound (ident (fasttext_key 1))) (environment copied_key_state)))
                = Return 2"
    by (simp add: stub_loader_def copied_key_state_eq emit_def logger_info_def sample_env_def)
  have con: "constructed copied_key_state = [fasttext_key 0]"
    by (simp add: copied_key_state_eq)
  from keys_compared_by_identity
         [where L = stub_loader and model_type = "''fasttext''" and model_kwargs = "[]"
            and s = copied_key_state and key = "fasttext_key 2"
            and ?s1.0 = "snd (prepare_model stub_loader ''fasttext'' [] copied_key_state)"
            and ?key2.0 = "fasttext_key 1" and rank = None and ?model2.0 = 2 and ?rank2.0 = None]
       wf reg ret absent load con
  show ?thesis by simp
qed

text \<open>
  Claim C3 as stated fails. Two calls \<^verbatim>\<open>prepare_model('fasttext')\<close> in a fresh process
  return keys with the same function and the same keyword arguments that are not equal:
  the table ends with two items after two constructions. Likewise \<^verbatim>\<open>get_model\<close> on a
  second key object for the function and keyword arguments of a registered key does not
  hit that key's entry: it constructs again and binds a second item.
\<close>

theorem equal_configurations_distinct_keys:
  "fst (prepare_model stub_loader ''fasttext'' [] (start_state (sample_env {} {})))
     = Return (fasttext_key 0)
   \<and> fst (prepare_model stub_loader ''fasttext'' [] registered_state) = Return (fasttext_key 1)
   \<and> func (fasttext_key 0) = func (fasttext_key 1)
   \<and> kwds (fasttext_key 0) = kwds (fasttext_key 1)
   \<and> \<not> py_eq (fasttext_key 0) (fasttext_key 1)
   \<and> map fst (MODEL_ZOO (snd (prepare_model stub_loader ''fasttext'' [] registered_state)))
       = [fasttext_key 0, fasttext_key 1]
   \<and> constructed (snd (prepare_model stub_loader ''fasttext'' [] registered_state))
       = [fasttext_key 0, fasttext_key 1]
   \<and> fst (new_partial ''fasttext'' [] registered_state) = fasttext_key 1
   \<and> fst (get_model stub_loader (Some (fasttext_key 1)) None copied_key_state) = Return (Some 2)
   \<and> map fst (MODEL_ZOO (snd (get_model stub_loader (Some (fasttext_key 1)) None copied_key_state)))
       = [fasttext_key 0, fasttext_key 1]
   \<and> constructed (snd (get_model stub_loader (Some (fasttext_key 1)) None copied_key_state))
       = [fasttext_key 0, fasttext_key 1]"
  by (simp add: copied_key_state_eq registered_state_eq prepare_model_def new_partial_def
        call_partial_def stub_loader_def start_state_def fasttext_key_def
        MODEL_FUNCTION_MAPPING_keys_def get_model_def materialize_def place_model_def
        zoo_getitem_def dict_contains_def py_eq_def sample_env_def logger_info_def emit_def)

end
